theory Spec2Isabelle
  imports Main "HOL-Library.Word" "HOL-Library.Sublist"
begin

section \<open>CodeSnap: the extension's source as functions\<close>

text \<open>
  The development follows \<^verbatim>\<open>src/extension.ts\<close>. JavaScript strings are lists of
  characters (code units below 256; none of the operations below looks at a code unit
  other than an ASCII one). A value that may be \<^verbatim>\<open>undefined\<close> is an option.
  Calls into the editor host, the highlighting library and the platform are either
  fields of an environment record (what the collaborator answers) or entries of an
  effect log (what the extension asked for), in program order.
\<close>

subsection \<open>String primitives of the platform\<close>

text \<open>\<^verbatim>\<open>s.replace(/c/g, r)\<close> for a one-character pattern: every occurrence, left to right.\<close>

definition replace_g :: "char \<Rightarrow> string \<Rightarrow> string \<Rightarrow> string" where
  "replace_g c r s = concat (map (\<lambda>x. if x = c then r else [x]) s)"

text \<open>\<^verbatim>\<open>s.charAt(i)\<close>: the empty string when the index is out of range.\<close>

definition charAt :: "string \<Rightarrow> nat \<Rightarrow> string" where
  "charAt s i = (if i < length s then [s ! i] else [])"

text \<open>\<^verbatim>\<open>s.split('\n')\<close>: always at least one piece; the empty string gives one empty piece.\<close>

fun split_on :: "char \<Rightarrow> string \<Rightarrow> string list" where
  "split_on sep [] = [[]]"
| "split_on sep (c # cs) =
     (if c = sep then [] # split_on sep cs
      else (case split_on sep cs of
              [] \<Rightarrow> [[c]]
            | l # ls \<Rightarrow> (c # l) # ls))"

text \<open>
  A non-negative integer in a template literal: its decimal digits. Line numbers are far
  below the range where a JavaScript number loses precision or prints an exponent.
\<close>

definition digitChar :: "nat \<Rightarrow> char" where
  "digitChar d = ''0123456789'' ! d"

fun numberToString :: "nat \<Rightarrow> string" where
  "numberToString n =
     (if n < 10 then [digitChar n]
      else numberToString (n div 10) @ [digitChar (n mod 10)])"

declare numberToString.simps [simp del]

text \<open>A possibly undefined string in a template literal, and its truthiness.\<close>

definition templateString :: "string option \<Rightarrow> string" where
  "templateString v = (case v of None \<Rightarrow> ''undefined'' | Some s \<Rightarrow> s)"

definition truthy :: "string option \<Rightarrow> bool" where
  "truthy v = (case v of None \<Rightarrow> False | Some s \<Rightarrow> s \<noteq> [])"

text \<open>
  \<^verbatim>\<open>name.replace(/\.[^/.]+$/, '')\<close>: the leftmost dot that is followed, up to the end
  of the string, by one or more characters other than a slash or a dot; the match is
  removed.
\<close>

fun stripExtension :: "string \<Rightarrow> string" where
  "stripExtension [] = []"
| "stripExtension (c # cs) =
     (if c = CHR ''.'' \<and> cs \<noteq> [] \<and> list_all (\<lambda>d. d \<noteq> CHR ''/'' \<and> d \<noteq> CHR ''.'') cs
      then []
      else c # stripExtension cs)"

text \<open>\<^verbatim>\<open>JSON.stringify\<close> of a string: quoted, with the escapes of the JSON grammar.\<close>

definition hexDigit :: "nat \<Rightarrow> char" where
  "hexDigit d = ''0123456789abcdef'' ! d"

definition jsonEscapeChar :: "char \<Rightarrow> string" where
  "jsonEscapeChar c =
     (if c = CHR 0x22 then [CHR 0x5C, CHR 0x22]
      else if c = CHR 0x5C then [CHR 0x5C, CHR 0x5C]
      else if c = CHR 0x08 then [CHR 0x5C, CHR ''b'']
      else if c = CHR 0x0C then [CHR 0x5C, CHR ''f'']
      else if c = CHR 0x0A then [CHR 0x5C, CHR ''n'']
      else if c = CHR 0x0D then [CHR 0x5C, CHR ''r'']
      else if c = CHR 0x09 then [CHR 0x5C, CHR ''t'']
      else if (of_char c :: nat) < 32
        then [CHR 0x5C, CHR ''u'', CHR ''0'', CHR ''0'',
              hexDigit ((of_char c :: nat) div 16), hexDigit ((of_char c :: nat) mod 16)]
      else [c])"

definition JSON_stringify :: "string \<Rightarrow> string" where
  "JSON_stringify s = [CHR 0x22] @ concat (map jsonEscapeChar s) @ [CHR 0x22]"

text \<open>
  \<^verbatim>\<open>data.replace(/^data:image\/png;base64,/, '')\<close>: the prefix is dropped when the
  string starts with it.
\<close>

definition dataUrlPrefix :: string where
  "dataUrlPrefix = ''data:image/png;base64,''"

definition stripDataUrlPrefix :: "string \<Rightarrow> string" where
  "stripDataUrlPrefix s =
     (if prefix dataUrlPrefix s then drop (length dataUrlPrefix) s else s)"

text \<open>
  \<^verbatim>\<open>Buffer.from(s, 'base64')\<close>, the platform's decoder: the standard and the URL-safe
  alphabet, six bits a character; decoding stops at the first padding character, and a
  character of neither alphabet is skipped. Four characters give three bytes, a final
  group of three gives two bytes, of two gives one byte.
\<close>

type_synonym byte = "8 word"

definition base64Alphabet :: string where
  "base64Alphabet = ''ABCDEFGHIJKLMNOPQRSTUVWXYZabcdefghijklmnopqrstuvwxyz0123456789+/''"

fun indexOf :: "char \<Rightarrow> string \<Rightarrow> nat option" where
  "indexOf c [] = None"
| "indexOf c (x # xs) = (if x = c then Some 0 else map_option Suc (indexOf c xs))"

definition unbase64 :: "char \<Rightarrow> nat option" where
  "unbase64 c =
     (if c = CHR ''-'' then Some 62
      else if c = CHR ''_'' then Some 63
      else indexOf c base64Alphabet)"

fun decodeSextets :: "nat list \<Rightarrow> byte list" where
  "decodeSextets (a # b # c # d # rest) =
     (let n = ((a * 64 + b) * 64 + c) * 64 + d
      in of_nat (n div 65536) # of_nat (n div 256 mod 256) # of_nat (n mod 256)
         # decodeSextets rest)"
| "decodeSextets [a, b, c] =
     (let n = (a * 64 + b) * 64 + c
      in [of_nat (n div 1024), of_nat (n div 4 mod 256)])"
| "decodeSextets [a, b] = [of_nat ((a * 64 + b) div 16)]"
| "decodeSextets _ = []"

definition Buffer_from_base64 :: "string \<Rightarrow> byte list" where
  "Buffer_from_base64 s =
     decodeSextets (List.map_filter unbase64 (takeWhile (\<lambda>c. c \<noteq> CHR ''='') s))"

subsection \<open>escapeHtml\<close>

text \<open>The five global replacements of \<^verbatim>\<open>escapeHtml\<close>, the ampersand first.\<close>

definition escapeHtml :: "string \<Rightarrow> string" where
  \<open>escapeHtml text =
     replace_g (CHR 0x27) ''&#039;''
       (replace_g (CHR 0x22) ''&quot;''
         (replace_g CHR ''>'' ''&gt;''
           (replace_g CHR ''<'' ''&lt;''
             (replace_g CHR ''&'' ''&amp;'' text))))\<close>

text \<open>
  The substitution table as the specification words it, one character at a time: the
  entity each of the five characters stands for, every other character itself.
\<close>

definition htmlEntity :: "char \<Rightarrow> string" where
  \<open>htmlEntity c =
     (if c = CHR ''&'' then ''&amp;''
      else if c = CHR ''<'' then ''&lt;''
      else if c = CHR ''>'' then ''&gt;''
      else if c = CHR 0x22 then ''&quot;''
      else if c = CHR 0x27 then ''&#039;''
      else [c])\<close>

subsection \<open>The theme table\<close>

record ThemeConfig =
  bg :: string
  headerBg :: string
  lineNumColor :: string
  borderColor :: string
  titleColor :: string
  shikiTheme :: string

definition darkConfig :: ThemeConfig where
  "darkConfig = \<lparr>bg = ''#1e1e1e'', headerBg = ''#2d2d2d'', lineNumColor = ''#858585'',
     borderColor = ''#333333'', titleColor = ''#999999'', shikiTheme = ''dark-plus''\<rparr>"

definition lightConfig :: ThemeConfig where
  "lightConfig = \<lparr>bg = ''#ffffff'', headerBg = ''#e8e8e8'', lineNumColor = ''#999999'',
     borderColor = ''#dddddd'', titleColor = ''#666666'', shikiTheme = ''light-plus''\<rparr>"

definition monokaiConfig :: ThemeConfig where
  "monokaiConfig = \<lparr>bg = ''#272822'', headerBg = ''#1e1f1c'', lineNumColor = ''#75715e'',
     borderColor = ''#3e3d32'', titleColor = ''#a6a28c'', shikiTheme = ''monokai''\<rparr>"

definition nordConfig :: ThemeConfig where
  "nordConfig = \<lparr>bg = ''#2e3440'', headerBg = ''#3b4252'', lineNumColor = ''#4c566a'',
     borderColor = ''#4c566a'', titleColor = ''#7b88a1'', shikiTheme = ''nord''\<rparr>"

definition draculaConfig :: ThemeConfig where
  "draculaConfig = \<lparr>bg = ''#282a36'', headerBg = ''#21222c'', lineNumColor = ''#6272a4'',
     borderColor = ''#44475a'', titleColor = ''#6272a4'', shikiTheme = ''dracula''\<rparr>"

text \<open>The own properties of the object literal \<^verbatim>\<open>themeConfigs\<close>, in the order written.\<close>

definition themeConfigs :: "(string \<times> ThemeConfig) list" where
  "themeConfigs =
     [(''dark'', darkConfig), (''light'', lightConfig), (''monokai'', monokaiConfig),
      (''nord'', nordConfig), (''dracula'', draculaConfig)]"

text \<open>
  \<^verbatim>\<open>themeConfigs\<close> is a plain object literal, so \<^verbatim>\<open>themeConfigs[name]\<close> is a
  property read through the prototype chain: an own property when the name is one of the
  five keys, otherwise the member of \<^verbatim>\<open>Object.prototype\<close> of that name when there is
  one (a function, or for \<^verbatim>\<open>__proto__\<close> the prototype object itself), otherwise
  \<^verbatim>\<open>undefined\<close>. Every such member is truthy and has none of the six fields.
\<close>

definition Object_prototype_keys :: "string list" where
  "Object_prototype_keys =
     [''constructor'', ''hasOwnProperty'', ''isPrototypeOf'', ''propertyIsEnumerable'',
      ''toLocaleString'', ''toString'', ''valueOf'', ''__proto__'',
      ''__defineGetter__'', ''__defineSetter__'', ''__lookupGetter__'', ''__lookupSetter__'']"

datatype property = Profile ThemeConfig | PrototypeMember string

definition themeConfigs_get :: "string \<Rightarrow> property option" where
  "themeConfigs_get name =
     (case map_of themeConfigs name of
        Some c \<Rightarrow> Some (Profile c)
      | None \<Rightarrow> if name \<in> set Object_prototype_keys then Some (PrototypeMember name) else None)"

text \<open>\<^verbatim>\<open>themeConfigs[theme] || themeConfigs.dark\<close>, as both functions compute it.\<close>

definition resolveTheme :: "string \<Rightarrow> property" where
  "resolveTheme theme =
     (case themeConfigs_get theme of Some v \<Rightarrow> v | None \<Rightarrow> Profile darkConfig)"

text \<open>A field read on the resolved value: \<^verbatim>\<open>undefined\<close> on a prototype member.\<close>

definition field :: "(ThemeConfig \<Rightarrow> string) \<Rightarrow> property \<Rightarrow> string option" where
  "field f v = (case v of Profile c \<Rightarrow> Some (f c) | PrototypeMember _ \<Rightarrow> None)"

subsection \<open>The host, the highlighting library and the extension's state\<close>

type_synonym js_error = string

text \<open>
  What the extension asks of its host, in program order. \<^verbatim>\<open>ShowSaveDialog dir name\<close>
  stands for the dialog opened with the default location \<^verbatim>\<open>path.join(dir, name)\<close>.
\<close>

datatype effect =
    ShowErrorMessage string
  | ShowInformationMessage string
  | ConsoleError string js_error
  | CreateWebviewPanel
  | OnDidDispose
  | OnDidReceiveMessage
  | Reveal
  | ShowSaveDialog string string
  | WriteFile string "byte list"

text \<open>
  The highlighting library: \<^verbatim>\<open>require('shiki')\<close> may throw, and so may each call on
  it; \<open>Inl\<close> is the exception. \<^verbatim>\<open>loadLanguage\<close> changes the highlighter, which is
  returned. The theme handed to \<^verbatim>\<open>codeToHtml\<close> may be \<^verbatim>\<open>undefined\<close>.
\<close>

record 'h shiki =
  require_shiki :: "js_error option"
  createHighlighter :: "string list \<Rightarrow> string list \<Rightarrow> js_error + 'h"
  getLoadedLanguages :: "'h \<Rightarrow> js_error + string list"
  loadLanguage :: "'h \<Rightarrow> string \<Rightarrow> js_error + 'h"
  codeToHtml :: "'h \<Rightarrow> string \<Rightarrow> string \<Rightarrow> string option \<Rightarrow> js_error + string"

record editor =
  selection_isEmpty :: bool
  selection_text :: string
  selection_start_line :: nat
  document_text :: string
  document_languageId :: string
  document_fileName :: string

text \<open>The four settings, as \<^verbatim>\<open>vsConfig.get\<close> returns them (defaults applied by the host).\<close>

record configuration =
  cfg_theme :: string
  cfg_showLineNumbers :: bool
  cfg_windowControls :: bool
  cfg_shadow :: bool

text \<open>
  \<open>mathRandomIndex k\<close> is the value of
  \<^verbatim>\<open>Math.floor(Math.random() * possible.length)\<close> at the \<open>k\<close>-th call of
  \<^verbatim>\<open>Math.random\<close>; \<open>showSaveDialog\<close> is the user's answer to the dialog,
  \<open>fs_writeFile\<close> whether the write succeeds.
\<close>

record 'h host =
  activeTextEditor :: "editor option"
  getConfiguration :: configuration
  shikiModule :: "'h shiki"
  mathRandomIndex :: "nat \<Rightarrow> nat"
  webview_cspSource :: string
  webview_html2canvasUri :: string
  path_basename :: "string \<Rightarrow> string"
  workspaceFolder :: "string option"
  os_homedir :: string
  showSaveDialog :: "string \<Rightarrow> string \<Rightarrow> string option"
  fs_writeFile :: "string \<Rightarrow> byte list \<Rightarrow> bool"

record panel =
  webview_html :: string

text \<open>
  The two module variables \<^verbatim>\<open>currentPanel\<close> and \<^verbatim>\<open>shikiHighlighter\<close>, the
  number of calls of \<^verbatim>\<open>Math.random\<close> made so far, and the effect log.
\<close>

record 'h state =
  currentPanel :: "panel option"
  shikiHighlighter :: "'h option"
  randomCalls :: nat
  effects :: "effect list"

definition emit :: "effect list \<Rightarrow> 'h state \<Rightarrow> 'h state" where
  "emit es st = st\<lparr>effects := effects st @ es\<rparr>"

subsection \<open>getHighlightedHtml\<close>

text \<open>The plain-text markup both \<^verbatim>\<open>catch\<close> branches return.\<close>

definition plainTextHtml :: "string \<Rightarrow> string" where
  \<open>plainTextHtml code = ''<pre style="margin:0"><code>'' @ escapeHtml code @ ''</code></pre>''\<close>

definition initialLangs :: "string list" where
  "initialLangs =
     [''javascript'', ''typescript'', ''python'', ''json'', ''html'', ''css'', ''markdown'', ''bash'']"

text \<open>The outer \<^verbatim>\<open>catch\<close>: the failure is logged to the console, the plain markup returned.\<close>

definition highlightingFailed :: "js_error \<Rightarrow> string \<Rightarrow> 'h state \<Rightarrow> string \<times> 'h state" where
  "highlightingFailed err code st =
     (plainTextHtml code, emit [ConsoleError ''CodeSnap: Shiki highlighting failed:'' err] st)"

text \<open>
  \<^verbatim>\<open>if (!shikiHighlighter) shikiHighlighter = await shiki.createHighlighter(...)\<close>:
  the highlighter in hand afterwards, or the exception of its creation.
\<close>

definition acquireHighlighter :: "'h shiki \<Rightarrow> 'h state \<Rightarrow> js_error + 'h" where
  "acquireHighlighter sh st =
     (case shikiHighlighter st of
        None \<Rightarrow> createHighlighter sh (map (shikiTheme \<circ> snd) themeConfigs) initialLangs
      | Some h \<Rightarrow> Inr h)"

text \<open>The language is loaded on demand when it is not among the loaded ones.\<close>

definition ensureLanguage :: "'h shiki \<Rightarrow> 'h \<Rightarrow> string \<Rightarrow> string list \<Rightarrow> js_error + 'h" where
  "ensureLanguage sh h language loadedLangs =
     (if language \<in> set loadedLangs then Inr h else loadLanguage sh h language)"

text \<open>
  The body of \<^verbatim>\<open>getHighlightedHtml\<close>. A failure to load the language is caught by
  the inner \<^verbatim>\<open>catch\<close> (nothing is logged); every other exception, the one of the
  synchronous \<^verbatim>\<open>codeToHtml\<close> included, by the outer one.
\<close>

definition getHighlightedHtml ::
  "'h shiki \<Rightarrow> 'h state \<Rightarrow> string \<Rightarrow> string \<Rightarrow> string \<Rightarrow> string \<times> 'h state" where
  "getHighlightedHtml sh st code language themeName =
     (let config = resolveTheme themeName in
      case require_shiki sh of
        Some err \<Rightarrow> highlightingFailed err code st
      | None \<Rightarrow>
         (case acquireHighlighter sh st of
            Inl err \<Rightarrow> highlightingFailed err code st
          | Inr h \<Rightarrow>
             (let st1 = st\<lparr>shikiHighlighter := Some h\<rparr> in
              case getLoadedLanguages sh h of
                Inl err \<Rightarrow> highlightingFailed err code st1
              | Inr loadedLangs \<Rightarrow>
                 (case ensureLanguage sh h language loadedLangs of
                    Inl _ \<Rightarrow> (plainTextHtml code, st1)
                  | Inr h' \<Rightarrow>
                     (let st2 = st1\<lparr>shikiHighlighter := Some h'\<rparr> in
                      case codeToHtml sh h' code language (field shikiTheme config) of
                        Inl err \<Rightarrow> highlightingFailed err code st2
                      | Inr html \<Rightarrow> (html, st2))))))"

subsection \<open>getNonce\<close>

definition possible :: string where
  "possible = ''ABCDEFGHIJKLMNOPQRSTUVWXYZabcdefghijklmnopqrstuvwxyz0123456789''"

text \<open>
  The loop of \<^verbatim>\<open>getNonce\<close> with \<open>n\<close> iterations left, \<open>k\<close> calls of
  \<^verbatim>\<open>Math.random\<close> made before it.
\<close>

fun nonceLoop :: "(nat \<Rightarrow> nat) \<Rightarrow> nat \<Rightarrow> nat \<Rightarrow> string \<Rightarrow> string" where
  "nonceLoop rnd k 0 text = text"
| "nonceLoop rnd k (Suc n) text = nonceLoop rnd (Suc k) n (text @ charAt possible (rnd k))"

definition getNonce :: "'h host \<Rightarrow> 'h state \<Rightarrow> string \<times> 'h state" where
  "getNonce host st =
     (nonceLoop (mathRandomIndex host) (randomCalls st) 32 [],
      st\<lparr>randomCalls := randomCalls st + 32\<rparr>)"

subsection \<open>buildWebviewHtml\<close>

record WebviewParams =
  highlightedHtml :: string
  code :: string
  fileName :: string
  startLine :: nat
  theme :: string
  showLineNumbers :: bool
  windowControls :: bool
  shadow :: bool
  html2canvasUri :: string
  nonce :: string
  cspSource :: string

text \<open>\<^verbatim>\<open>const lines = code.split('\n')\<close>.\<close>

definition codeLines :: "string \<Rightarrow> string list" where
  "codeLines text = split_on CHR 0x0A text"

text \<open>
  \<^verbatim>\<open>lines.map((_, i) => `<div class="line-number">${startLine + i}</div>`)\<close> is
  \<open>lineNumberDivs\<close>; it is joined with the empty separator when line numbers are
  shown, and the result is the empty string otherwise.
\<close>

definition lineNumberDiv :: "nat \<Rightarrow> string" where
  \<open>lineNumberDiv n = ''<div class="line-number">'' @ numberToString n @ ''</div>''\<close>

definition lineNumberDivs :: "WebviewParams \<Rightarrow> string list" where
  "lineNumberDivs params =
     map (\<lambda>(i, _). lineNumberDiv (startLine params + i)) (enumerate 0 (codeLines (code params)))"

definition lineNumbersHtml :: "WebviewParams \<Rightarrow> string" where
  "lineNumbersHtml params =
     (if showLineNumbers params then concat (lineNumberDivs params) else [])"

text \<open>The gutter slot of the template.\<close>

definition gutterHtml :: "WebviewParams \<Rightarrow> string" where
  \<open>gutterHtml params =
     (if showLineNumbers params
      then ''<div class="line-numbers">'' @ lineNumbersHtml params @ ''</div>''
      else [])\<close>

definition fileNameForJs :: "WebviewParams \<Rightarrow> string" where
  "fileNameForJs params = JSON_stringify (stripExtension (fileName params) @ ''-codesnap'')"

text \<open>
  The static text of the template literal, cut at its interpolations and at the
  boundaries of the elements of the document: \<open>head_0\<close> is the text before the
  policy declaration, \<open>csp_0\<close> to \<open>csp_2\<close> the text of the policy declaration,
  \<open>lib_0\<close> to \<open>lib_2\<close> of the element that loads the rasterization library,
  \<open>style_00\<close> to \<open>style_11\<close> of the style element, \<open>body_0\<close> to \<open>body_3\<close> of
  the markup from the end of the head to the inline script, \<open>header_0\<close> and
  \<open>header_1\<close> of the nested window-header template, \<open>script_0\<close> to \<open>script_2\<close>
  of the inline script, \<open>tail_0\<close> the end of the document.
\<close>

definition head_0 :: string where
  \<open>head_0 = concat [
    ''<!DOCTYPE html>\<newline>'',
    ''<html>\<newline>'',
    ''<head>\<newline>'',
    ''  <meta charset="UTF-8">\<newline>'',
    ''  <meta name="viewport" content="width=device-width, initial-scale=1.0">\<newline>'',
    ''  '']\<close>

definition csp_0 :: string where
  \<open>csp_0 = ''<meta http-equiv="Content-Security-Policy" content="default-src 'none'; script-src 'nonce-''\<close>

definition csp_1 :: string where
  \<open>csp_1 = CHR 0x27 # '' ''\<close>

definition csp_2 :: string where
  \<open>csp_2 = ''; style-src 'unsafe-inline'; img-src data:;">''\<close>

definition indent :: string where
  \<open>indent = concat [
    ''\<newline>'',
    ''  '']\<close>

definition lib_0 :: string where
  \<open>lib_0 = ''<script nonce="''\<close>

definition lib_1 :: string where
  \<open>lib_1 = ''" src="''\<close>

definition lib_2 :: string where
  \<open>lib_2 = ''"></script>''\<close>

definition style_00 :: string where
  \<open>style_00 = concat [
    ''<style>\<newline>'',
    ''    * { margin: 0; padding: 0; box-sizing: border-box; }\<newline>'',
    ''\<newline>'',
    ''    body {\<newline>'',
    ''      padding: 40px;\<newline>'',
    ''      background: '']\<close>

definition style_01 :: string where
  \<open>style_01 = concat [
    '';\<newline>'',
    ''      font-family: -apple-system, BlinkMacSystemFont, 'Segoe UI', Roboto, sans-serif;\<newline>'',
    ''      min-height: 100vh;\<newline>'',
    ''    }\<newline>'',
    ''\<newline>'',
    ''    .toolbar {\<newline>'',
    ''      display: flex;\<newline>'',
    ''      gap: 12px;\<newline>'',
    ''      margin-bottom: 24px;\<newline>'',
    ''    }\<newline>'',
    ''\<newline>'',
    ''    .btn {\<newline>'',
    ''      padding: 10px 20px;\<newline>'',
    ''      border: none;\<newline>'',
    ''      border-radius: 6px;\<newline>'',
    ''      cursor: pointer;\<newline>'',
    ''      font-size: 14px;\<newline>'',
    ''      font-weight: 500;\<newline>'',
    ''      transition: all 0.2s;\<newline>'',
    ''    }\<newline>'',
    ''\<newline>'',
    ''    .btn-primary { background: #238636; color: white; }\<newline>'',
    ''    .btn-primary:hover { background: #2ea043; }\<newline>'',
    ''    .btn-secondary {\<newline>'',
    ''      background: '']\<close>

definition style_02 :: string where
  \<open>style_02 = concat [
    '';\<newline>'',
    ''      color: '']\<close>

definition style_03 :: string where
  \<open>style_03 = concat [
    '';\<newline>'',
    ''      border: 1px solid '']\<close>

definition style_04 :: string where
  \<open>style_04 = concat [
    '';\<newline>'',
    ''    }\<newline>'',
    ''    .btn-secondary:hover { background: '']\<close>

definition style_05 :: string where
  \<open>style_05 = concat [
    ''; }\<newline>'',
    ''\<newline>'',
    ''    .preview-container { display: inline-block; }\<newline>'',
    ''\<newline>'',
    ''    .code-container {\<newline>'',
    ''      display: inline-block;\<newline>'',
    ''      background: '']\<close>

definition style_06 :: string where
  \<open>style_06 = concat [
    '';\<newline>'',
    ''      border-radius: 12px;\<newline>'',
    ''      overflow: hidden;\<newline>'',
    ''      '']\<close>

definition style_07 :: string where
  \<open>style_07 = concat [
    ''\<newline>'',
    ''    }\<newline>'',
    ''\<newline>'',
    ''    .window-header {\<newline>'',
    ''      padding: 12px 16px;\<newline>'',
    ''      background: '']\<close>

definition style_08 :: string where
  \<open>style_08 = concat [
    '';\<newline>'',
    ''      display: flex;\<newline>'',
    ''      align-items: center;\<newline>'',
    ''      gap: 8px;\<newline>'',
    ''    }\<newline>'',
    ''\<newline>'',
    ''    .window-dot { width: 12px; height: 12px; border-radius: 50%; }\<newline>'',
    ''    .dot-red { background: #ff5f56; }\<newline>'',
    ''    .dot-yellow { background: #ffbd2e; }\<newline>'',
    ''    .dot-green { background: #27c93f; }\<newline>'',
    ''    .window-title { margin-left: 12px; color: '']\<close>

definition style_09 :: string where
  \<open>style_09 = concat [
    ''; font-size: 13px; }\<newline>'',
    ''\<newline>'',
    ''    .code-wrapper {\<newline>'',
    ''      display: flex;\<newline>'',
    ''      padding: 20px;\<newline>'',
    ''      font-family: 'SF Mono', Monaco, 'Cascadia Code', Menlo, Consolas, 'Liberation Mono', monospace;\<newline>'',
    ''      font-size: 14px;\<newline>'',
    ''      line-height: 1.6;\<newline>'',
    ''    }\<newline>'',
    ''\<newline>'',
    ''    .line-numbers {\<newline>'',
    ''      padding-right: 16px;\<newline>'',
    ''      text-align: right;\<newline>'',
    ''      color: '']\<close>

definition style_10 :: string where
  \<open>style_10 = concat [
    '';\<newline>'',
    ''      user-select: none;\<newline>'',
    ''      border-right: 1px solid '']\<close>

definition style_11 :: string where
  \<open>style_11 = concat [
    '';\<newline>'',
    ''      margin-right: 16px;\<newline>'',
    ''      flex-shrink: 0;\<newline>'',
    ''    }\<newline>'',
    ''\<newline>'',
    ''    .line-number { line-height: 1.6; }\<newline>'',
    ''\<newline>'',
    ''    .code-content { white-space: pre; overflow-x: auto; flex: 1; }\<newline>'',
    ''\<newline>'',
    ''    .code-content pre {\<newline>'',
    ''      margin: 0 !important;\<newline>'',
    ''      padding: 0 !important;\<newline>'',
    ''      background: transparent !important;\<newline>'',
    ''      font-family: inherit;\<newline>'',
    ''      font-size: inherit;\<newline>'',
    ''      line-height: inherit;\<newline>'',
    ''    }\<newline>'',
    ''\<newline>'',
    ''    .code-content code {\<newline>'',
    ''      font-family: inherit;\<newline>'',
    ''      font-size: inherit;\<newline>'',
    ''      line-height: inherit;\<newline>'',
    ''    }\<newline>'',
    ''\<newline>'',
    ''    .code-content .line {\<newline>'',
    ''      display: block;\<newline>'',
    ''      line-height: 1.6;\<newline>'',
    ''      min-height: 1em;\<newline>'',
    ''    }\<newline>'',
    ''\<newline>'',
    ''    .hint { margin-top: 20px; color: #8b949e; font-size: 12px; }\<newline>'',
    ''  </style>'']\<close>

definition body_0 :: string where
  \<open>body_0 = concat [
    ''\<newline>'',
    ''</head>\<newline>'',
    ''<body>\<newline>'',
    ''  <div class="toolbar">\<newline>'',
    ''    <button class="btn btn-primary" onclick="saveImage()">Save as PNG</button>\<newline>'',
    ''    <button class="btn btn-secondary" onclick="copyImage()">Copy to Clipboard</button>\<newline>'',
    ''  </div>\<newline>'',
    ''\<newline>'',
    ''  <div class="preview-container">\<newline>'',
    ''    <div class="code-container" id="capture">\<newline>'',
    ''      '']\<close>

definition header_0 :: string where
  \<open>header_0 = concat [
    ''\<newline>'',
    ''      <div class="window-header">\<newline>'',
    ''        <div class="window-dot dot-red"></div>\<newline>'',
    ''        <div class="window-dot dot-yellow"></div>\<newline>'',
    ''        <div class="window-dot dot-green"></div>\<newline>'',
    ''        <span class="window-title">'']\<close>

definition header_1 :: string where
  \<open>header_1 = concat [
    ''</span>\<newline>'',
    ''      </div>\<newline>'',
    ''      '']\<close>

definition body_1 :: string where
  \<open>body_1 = concat [
    ''\<newline>'',
    ''      <div class="code-wrapper">\<newline>'',
    ''        '']\<close>

definition body_2 :: string where
  \<open>body_2 = concat [
    ''\<newline>'',
    ''        <div class="code-content">'']\<close>

definition body_3 :: string where
  \<open>body_3 = concat [
    ''</div>\<newline>'',
    ''      </div>\<newline>'',
    ''    </div>\<newline>'',
    ''  </div>\<newline>'',
    ''\<newline>'',
    ''  <p class="hint">Tip: Adjust theme, line numbers, and more in VS Code Settings &rarr; Extensions &rarr; CodeSnap</p>\<newline>'',
    ''\<newline>'',
    ''  '']\<close>

definition script_0 :: string where
  \<open>script_0 = ''<script nonce="''\<close>

definition script_1 :: string where
  \<open>script_1 = concat [
    ''">\<newline>'',
    ''    const vscode = acquireVsCodeApi();\<newline>'',
    ''\<newline>'',
    ''    async function captureElement() {\<newline>'',
    ''      const element = document.getElementById('capture');\<newline>'',
    ''      return html2canvas(element, { backgroundColor: null, scale: 2 });\<newline>'',
    ''    }\<newline>'',
    ''\<newline>'',
    ''    async function saveImage() {\<newline>'',
    ''      try {\<newline>'',
    ''        const canvas = await captureElement();\<newline>'',
    ''        const dataUrl = canvas.toDataURL('image/png');\<newline>'',
    ''        vscode.postMessage({\<newline>'',
    ''          command: 'save',\<newline>'',
    ''          data: dataUrl,\<newline>'',
    ''          fileName: '']\<close>

definition script_2 :: string where
  \<open>script_2 = concat [
    ''\<newline>'',
    ''        });\<newline>'',
    ''      } catch (err) {\<newline>'',
    ''        vscode.postMessage({ command: 'error', text: 'Failed to capture image: ' + err.message });\<newline>'',
    ''      }\<newline>'',
    ''    }\<newline>'',
    ''\<newline>'',
    ''    async function copyImage() {\<newline>'',
    ''      try {\<newline>'',
    ''        const canvas = await captureElement();\<newline>'',
    ''        canvas.toBlob(async (blob) => {\<newline>'',
    ''          if (blob) {\<newline>'',
    ''            try {\<newline>'',
    ''              await navigator.clipboard.write([\<newline>'',
    ''                new ClipboardItem({ 'image/png': blob })\<newline>'',
    ''              ]);\<newline>'',
    ''              vscode.postMessage({ command: 'copy' });\<newline>'',
    ''            } catch (clipErr) {\<newline>'',
    ''              vscode.postMessage({ command: 'error', text: 'Clipboard access denied. Use Save as PNG instead.' });\<newline>'',
    ''            }\<newline>'',
    ''          }\<newline>'',
    ''        });\<newline>'',
    ''      } catch (err) {\<newline>'',
    ''        vscode.postMessage({ command: 'error', text: 'Failed to capture image: ' + err.message });\<newline>'',
    ''      }\<newline>'',
    ''    }\<newline>'',
    ''  </script>'']\<close>

definition tail_0 :: string where
  \<open>tail_0 = concat [
    ''\<newline>'',
    ''</body>\<newline>'',
    ''</html>'']\<close>

definition windowHeaderHtml :: "WebviewParams \<Rightarrow> string" where
  "windowHeaderHtml params =
     (if windowControls params
      then header_0 @ escapeHtml (fileName params) @ header_1
      else [])"

text \<open>The policy declaration and the two script elements carry \<^verbatim>\<open>${nonce}\<close>.\<close>

definition cspMeta :: "WebviewParams \<Rightarrow> string" where
  "cspMeta params = concat [csp_0, nonce params, csp_1, cspSource params, csp_2]"

definition libraryScript :: "WebviewParams \<Rightarrow> string" where
  "libraryScript params = concat [lib_0, nonce params, lib_1, html2canvasUri params, lib_2]"

definition inlineScript :: "WebviewParams \<Rightarrow> string" where
  "inlineScript params = concat [script_0, nonce params, script_1, fileNameForJs params, script_2]"

definition styleElement :: "WebviewParams \<Rightarrow> string" where
  \<open>styleElement params =
     (let config = resolveTheme (theme params);
          isDark = (theme params \<noteq> ''light'')
      in concat
        [style_00, (if isDark then ''#0d1117'' else ''#f5f5f5''),
         style_01, (if isDark then ''#21262d'' else ''#e1e4e8''),
         style_02, (if isDark then ''#c9d1d9'' else ''#24292e''),
         style_03, (if isDark then ''#30363d'' else ''#d1d5da''),
         style_04, (if isDark then ''#30363d'' else ''#d1d5da''),
         style_05, templateString (field bg config),
         style_06, (if shadow params then ''box-shadow: 0 20px 68px rgba(0,0,0,0.55);'' else []),
         style_07, templateString (field headerBg config),
         style_08, templateString (field titleColor config),
         style_09, templateString (field lineNumColor config),
         style_10, templateString (field borderColor config),
         style_11])\<close>

definition bodyMarkup :: "WebviewParams \<Rightarrow> string" where
  "bodyMarkup params =
     concat [body_0, windowHeaderHtml params,
             body_1, gutterHtml params,
             body_2, highlightedHtml params,
             body_3]"

text \<open>The template literal that \<^verbatim>\<open>buildWebviewHtml\<close> returns, element by element.\<close>

definition buildWebviewHtml :: "WebviewParams \<Rightarrow> string" where
  "buildWebviewHtml params =
     concat [head_0, cspMeta params, indent, libraryScript params, indent,
             styleElement params, bodyMarkup params, inlineScript params, tail_0]"

subsection \<open>showCodeSnapPanel and the two commands\<close>

text \<open>
  The panel is created, with its two handlers, only when there is none; otherwise the
  existing one is revealed. Then the nonce is drawn and the panel's document replaced.
  \<open>webviewParams\<close> is the object literal handed to \<^verbatim>\<open>buildWebviewHtml\<close>.
\<close>

definition webviewParams ::
  "'h host \<Rightarrow> string \<Rightarrow> string \<Rightarrow> string \<Rightarrow> nat \<Rightarrow> string \<Rightarrow> WebviewParams" where
  "webviewParams host highlighted codeText name line token =
     (let vsConfig = getConfiguration host
      in \<lparr>highlightedHtml = highlighted, code = codeText, fileName = name,
          startLine = line, theme = cfg_theme vsConfig,
          showLineNumbers = cfg_showLineNumbers vsConfig,
          windowControls = cfg_windowControls vsConfig,
          shadow = cfg_shadow vsConfig,
          html2canvasUri = webview_html2canvasUri host,
          nonce = token, cspSource = webview_cspSource host\<rparr>)"

definition showCodeSnapPanel ::
  "'h host \<Rightarrow> 'h state \<Rightarrow> string \<Rightarrow> string \<Rightarrow> string \<Rightarrow> nat \<Rightarrow> 'h state" where
  "showCodeSnapPanel host st codeText language name line =
     (let vsConfig = getConfiguration host;
          (highlighted, st1) =
             getHighlightedHtml (shikiModule host) st codeText language (cfg_theme vsConfig);
          (p, st2) =
             (case currentPanel st1 of
                None \<Rightarrow>
                  (\<lparr>webview_html = []\<rparr>,
                   emit [CreateWebviewPanel, OnDidDispose, OnDidReceiveMessage] st1)
              | Some p \<Rightarrow> (p, emit [Reveal] st1));
          (token, st3) = getNonce host st2;
          html = buildWebviewHtml (webviewParams host highlighted codeText name line token)
      in st3\<lparr>currentPanel := Some (p\<lparr>webview_html := html\<rparr>)\<rparr>)"

text \<open>The callback registered with \<^verbatim>\<open>onDidDispose\<close>, run when the user closes the panel.\<close>

definition panelDisposed :: "'h state \<Rightarrow> 'h state" where
  "panelDisposed st = st\<lparr>currentPanel := None\<rparr>"

definition captureSelection :: "'h host \<Rightarrow> 'h state \<Rightarrow> 'h state" where
  "captureSelection host st =
     (case activeTextEditor host of
        None \<Rightarrow> emit [ShowErrorMessage ''No active editor''] st
      | Some ed \<Rightarrow>
          if selection_isEmpty ed
          then emit [ShowErrorMessage ''No code selected. Select some code first.''] st
          else showCodeSnapPanel host st (selection_text ed) (document_languageId ed)
                 (path_basename host (document_fileName ed)) (selection_start_line ed + 1))"

definition captureFile :: "'h host \<Rightarrow> 'h state \<Rightarrow> 'h state" where
  "captureFile host st =
     (case activeTextEditor host of
        None \<Rightarrow> emit [ShowErrorMessage ''No active editor''] st
      | Some ed \<Rightarrow>
          showCodeSnapPanel host st (document_text ed) (document_languageId ed)
            (path_basename host (document_fileName ed)) 1)"

subsection \<open>The message handler of the panel\<close>

text \<open>A message posted by the document: each field a string or missing.\<close>

record message =
  msg_command :: "string option"
  msg_data :: "string option"
  msg_fileName :: "string option"
  msg_text :: "string option"

text \<open>
  \<^verbatim>\<open>workspaceFolders?.[0]?.uri.fsPath || require('os').homedir()\<close>.
\<close>

definition defaultDir :: "'h host \<Rightarrow> string" where
  "defaultDir host =
     (if truthy (workspaceFolder host) then templateString (workspaceFolder host)
      else os_homedir host)"

text \<open>
  The \<^verbatim>\<open>save\<close> branch: the dialog, and when the user picks a path the prefix is
  stripped, the rest decoded and written; the confirmation follows a write that succeeds.
\<close>

definition saveScreenshot :: "'h host \<Rightarrow> 'h state \<Rightarrow> message \<Rightarrow> 'h state" where
  "saveScreenshot host st m =
     (let dir = defaultDir host;
          name = (if truthy (msg_fileName m) then templateString (msg_fileName m)
                  else ''codesnap'') @ ''.png'';
          st1 = emit [ShowSaveDialog dir name] st
      in case showSaveDialog host dir name of
           None \<Rightarrow> st1
         | Some uri \<Rightarrow>
            (let base64 = stripDataUrlPrefix (templateString (msg_data m));
                 bytes = Buffer_from_base64 base64;
                 st2 = emit [WriteFile uri bytes] st1
             in if fs_writeFile host uri bytes
                then emit [ShowInformationMessage (''Screenshot saved to '' @ uri)] st2
                else st2))"

definition onDidReceiveMessage :: "'h host \<Rightarrow> 'h state \<Rightarrow> message \<Rightarrow> 'h state" where
  "onDidReceiveMessage host st m =
     (if msg_command m = Some ''copy''
      then emit [ShowInformationMessage ''Screenshot copied to clipboard!''] st
      else if msg_command m = Some ''save'' \<and> truthy (msg_data m)
      then saveScreenshot host st m
      else if msg_command m = Some ''error''
      then emit [ShowErrorMessage (''CodeSnap: '' @ templateString (msg_text m))] st
      else st)"

subsection \<open>Notions the properties are stated with\<close>

text \<open>The document a state's panel shows, when there is a panel.\<close>

definition panelHtml :: "'h state \<Rightarrow> string option" where
  "panelHtml st = map_option webview_html (currentPanel st)"




subsection \<open>Concrete environments\<close>

text \<open>The module variables when the extension is loaded.\<close>

definition initialState :: "'h state" where
  "initialState = \<lparr>currentPanel = None, shikiHighlighter = None, randomCalls = 0, effects = []\<rparr>"

text \<open>
  A highlighting library in miniature: a highlighter is the list of its loaded
  languages, two further languages can be loaded on demand, and highlighting wraps the
  escaped text, failing on an undefined theme.
\<close>

definition exampleShiki :: "string list shiki" where
  \<open>exampleShiki =
     \<lparr>require_shiki = None,
      createHighlighter = (\<lambda>themes langs. Inr langs),
      getLoadedLanguages = (\<lambda>h. Inr h),
      loadLanguage = (\<lambda>h l. if l \<in> set [''rust'', ''go''] then Inr (h @ [l])
                              else Inl (''Language not found: '' @ l)),
      codeToHtml = (\<lambda>h src l t. case t of
                       None \<Rightarrow> Inl ''Theme not found''
                     | Some t \<Rightarrow> Inr (''<pre class="shiki ''  @ t @ ''"><code>'' @ escapeHtml src @
                                      ''</code></pre>''))\<rparr>\<close>

definition exampleEditor :: editor where
  "exampleEditor =
     \<lparr>selection_isEmpty = True, selection_text = [], selection_start_line = 9,
      document_text = ''const x = 1;'', document_languageId = ''typescript'',
      document_fileName = ''/work/foo.ts''\<rparr>"

definition exampleConfiguration :: configuration where
  "exampleConfiguration =
     \<lparr>cfg_theme = ''dark'', cfg_showLineNumbers = True, cfg_windowControls = True,
      cfg_shadow = True\<rparr>"

text \<open>
  A host whose first thirty-two random draws give index 0 and whose next thirty-two give
  index 1, and whose user accepts the proposed location in the save dialog.
\<close>

definition exampleHost :: "string list host" where
  "exampleHost =
     \<lparr>activeTextEditor = Some exampleEditor,
      getConfiguration = exampleConfiguration,
      shikiModule = exampleShiki,
      mathRandomIndex = (\<lambda>k. k div 32),
      webview_cspSource = ''https://webview.example'',
      webview_html2canvasUri = ''https://webview.example/html2canvas.min.js'',
      path_basename = (\<lambda>p. last (split_on CHR ''/'' p)),
      workspaceFolder = Some ''/work'',
      os_homedir = ''/home/user'',
      showSaveDialog = (\<lambda>dir name. Some (dir @ ''/'' @ name)),
      fs_writeFile = (\<lambda>uri bytes. True)\<rparr>"


text \<open>The message of the third end-to-end scenario.\<close>

definition saveMessage :: message where
  "saveMessage =
     \<lparr>msg_command = Some ''save'', msg_data = Some ''data:image/png;base64,AAAA'',
      msg_fileName = Some ''foo-codesnap'', msg_text = None\<rparr>"

section \<open>Properties\<close>

subsection \<open>escapeHtml\<close>

lemma replace_g_append: "replace_g c r (xs @ ys) = replace_g c r xs @ replace_g c r ys"
  by (simp add: replace_g_def)

lemma replace_g_Nil: "replace_g c r [] = []"
  by (simp add: replace_g_def)

lemma replace_g_Cons: "replace_g c r (x # xs) = (if x = c then r else [x]) @ replace_g c r xs"
  by (simp add: replace_g_def)

lemma escapeHtml_Nil: "escapeHtml [] = []"
  by (simp add: escapeHtml_def replace_g_Nil)

lemma escapeHtml_single: "escapeHtml [c] = htmlEntity c"
  by (simp add: escapeHtml_def htmlEntity_def replace_g_Cons replace_g_Nil)

lemma escapeHtml_append: "escapeHtml (xs @ ys) = escapeHtml xs @ escapeHtml ys"
  by (simp add: escapeHtml_def replace_g_append)

lemma escapeHtml_Cons: "escapeHtml (c # cs) = htmlEntity c @ escapeHtml cs"
  using escapeHtml_append [of "[c]" cs] by (simp add: escapeHtml_single)

lemma escapeHtml_concat_map: "escapeHtml s = concat (map htmlEntity s)"
  by (induction s) (simp_all add: escapeHtml_Nil escapeHtml_Cons)

text \<open>
  C1. \<^verbatim>\<open>escapeHtml\<close> is the five substitutions and nothing else: each character of
  the input is replaced by its entity once (the ampersands of the entities written
  earlier are not escaped again, the ampersand pass being the first), and the literal
  input \<^verbatim>\<open>5 > 3 && "ok" < 'yes'\<close> gives
  \<^verbatim>\<open>5 &gt; 3 &amp;&amp; &quot;ok&quot; &lt; &#039;yes&#039;\<close>.
\<close>

theorem escapeHtml_five_substitutions:
  \<open>escapeHtml text = concat (map htmlEntity text) \<and>
   escapeHtml (''5 > 3 && "ok" < 'yes'' @ [CHR 0x27]) =
     ''5 &gt; 3 &amp;&amp; &quot;ok&quot; &lt; &#039;yes&#039;''\<close>
proof
  show "escapeHtml text = concat (map htmlEntity text)"
    by (rule escapeHtml_concat_map)
next
  show \<open>escapeHtml (''5 > 3 && "ok" < 'yes'' @ [CHR 0x27]) =
     ''5 &gt; 3 &amp;&amp; &quot;ok&quot; &lt; &#039;yes&#039;''\<close>
    by (simp add: escapeHtml_def replace_g_def)
qed

subsection \<open>The line-number gutter\<close>
















subsection \<open>The highlighter's fallback\<close>

text \<open>
  C2. Whenever a step of the highlighting throws (the library cannot be required, the
  highlighter cannot be created, its loaded languages cannot be read, the requested
  language is not loaded and cannot be loaded, or \<^verbatim>\<open>codeToHtml\<close> throws),
  \<^verbatim>\<open>getHighlightedHtml\<close> returns the escaped text inside
  \<^verbatim>\<open><pre style="margin:0"><code>\<close>, which is not empty. The function returns a
  value in every case: all exceptions of the library are values of the model.
\<close>

theorem getHighlightedHtml_fallback:
  assumes "(\<exists>e. require_shiki sh = Some e)
     \<or> (\<exists>e. acquireHighlighter sh st = Inl e)
     \<or> (\<exists>h e. acquireHighlighter sh st = Inr h \<and> getLoadedLanguages sh h = Inl e)
     \<or> (\<exists>h ls e. acquireHighlighter sh st = Inr h \<and> getLoadedLanguages sh h = Inr ls \<and>
           language \<notin> set ls \<and> loadLanguage sh h language = Inl e)
     \<or> (\<exists>h ls h' e. acquireHighlighter sh st = Inr h \<and> getLoadedLanguages sh h = Inr ls \<and>
           ensureLanguage sh h language ls = Inr h' \<and>
           codeToHtml sh h' src language (field shikiTheme (resolveTheme themeName)) = Inl e)"
  shows \<open>fst (getHighlightedHtml sh st src language themeName) =
           ''<pre style="margin:0"><code>'' @ escapeHtml src @ ''</code></pre>'' \<and>
         fst (getHighlightedHtml sh st src language themeName) \<noteq> []\<close>
  using assms
  by (auto simp: getHighlightedHtml_def highlightingFailed_def plainTextHtml_def
      ensureLanguage_def split: option.splits sum.splits)

lemma exampleShiki_acquire: "acquireHighlighter exampleShiki initialState = Inr initialLangs"
  by (simp add: acquireHighlighter_def exampleShiki_def initialState_def)

lemma exampleShiki_loaded: "getLoadedLanguages exampleShiki h = Inr h"
  by (simp add: exampleShiki_def)

lemma exampleShiki_cobol:
  "loadLanguage exampleShiki h ''cobol'' = Inl ''Language not found: cobol''"
  by (simp add: exampleShiki_def)

lemma cobol_not_initial: "''cobol'' \<notin> set initialLangs"
  by (simp add: initialLangs_def)

theorem getHighlightedHtml_fallback_witness:
  \<open>loadLanguage exampleShiki initialLangs ''cobol'' = Inl ''Language not found: cobol'' \<and>
   fst (getHighlightedHtml exampleShiki initialState ''a < b'' ''cobol'' ''dark'') =
     ''<pre style="margin:0"><code>a &lt; b</code></pre>''\<close>
proof -
  have "\<exists>h ls e. acquireHighlighter exampleShiki initialState = Inr h \<and>
          getLoadedLanguages exampleShiki h = Inr ls \<and> ''cobol'' \<notin> set ls \<and>
          loadLanguage exampleShiki h ''cobol'' = Inl e"
    using exampleShiki_acquire exampleShiki_loaded exampleShiki_cobol cobol_not_initial
    by blast
  then have \<open>fst (getHighlightedHtml exampleShiki initialState ''a < b'' ''cobol'' ''dark'') =
           ''<pre style="margin:0"><code>'' @ escapeHtml ''a < b'' @ ''</code></pre>''\<close>
    using getHighlightedHtml_fallback
      [of exampleShiki initialState "''cobol''" "''a < b''" "''dark''"]
    by blast
  then show ?thesis
    by (simp add: exampleShiki_cobol escapeHtml_def replace_g_def)
qed

subsection \<open>Theme resolution\<close>

text \<open>
  C4. The name \<^verbatim>\<open>constructor\<close> is none of the five theme names, yet
  \<^verbatim>\<open>themeConfigs['constructor']\<close> is the inherited member of the object's prototype,
  which is truthy: the fallback to the dark profile is not taken, and the resolved
  value has no \<^verbatim>\<open>bg\<close> field.
\<close>

theorem resolveTheme_inherited_member:
  "''constructor'' \<notin> set (map fst themeConfigs) \<and>
   resolveTheme ''constructor'' = PrototypeMember ''constructor'' \<and>
   resolveTheme ''constructor'' \<noteq> Profile darkConfig \<and>
   field bg (resolveTheme ''constructor'') = None \<and>
   templateString (field bg (resolveTheme ''constructor'')) = ''undefined''"
  by (simp add: resolveTheme_def themeConfigs_get_def themeConfigs_def
      Object_prototype_keys_def field_def templateString_def)

text \<open>
  A name that is neither one of the five keys nor a member of the prototype resolves to
  the dark profile, \<^verbatim>\<open>solarized\<close> for one; each of the five keys to its own profile.
\<close>

lemma resolveTheme_unknown:
  assumes "name \<notin> set (map fst themeConfigs)" and "name \<notin> set Object_prototype_keys"
  shows "resolveTheme name = Profile darkConfig"
proof -
  have "map_of themeConfigs name = None"
    using assms(1) by (simp add: map_of_eq_None_iff)
  then show ?thesis
    using assms(2) by (simp add: resolveTheme_def themeConfigs_get_def)
qed

lemma resolveTheme_solarized: "resolveTheme ''solarized'' = Profile darkConfig"
  by (rule resolveTheme_unknown) (simp_all add: themeConfigs_def Object_prototype_keys_def)

lemma resolveTheme_known:
  "resolveTheme ''dark'' = Profile darkConfig"
  "resolveTheme ''light'' = Profile lightConfig"
  "resolveTheme ''monokai'' = Profile monokaiConfig"
  "resolveTheme ''nord'' = Profile nordConfig"
  "resolveTheme ''dracula'' = Profile draculaConfig"
  by (simp_all add: resolveTheme_def themeConfigs_get_def themeConfigs_def)

subsection \<open>The commands without an editor or a selection\<close>

text \<open>
  C8. Without an active editor both commands only show the error message
  \<^verbatim>\<open>No active editor\<close>; with an editor whose selection is empty, Capture Selection only
  shows \<^verbatim>\<open>No code selected. Select some code first.\<close> In each case the state after the
  command is the state before it with that one message appended to the effect log: no
  panel is created, revealed or changed, no document composed, no highlighter created,
  no random number drawn.
\<close>

theorem capture_without_editor_or_selection:
  "(activeTextEditor host = None \<longrightarrow>
      captureSelection host st =
        st\<lparr>effects := effects st @ [ShowErrorMessage ''No active editor'']\<rparr> \<and>
      captureFile host st =
        st\<lparr>effects := effects st @ [ShowErrorMessage ''No active editor'']\<rparr>) \<and>
   (activeTextEditor host = Some ed \<and> selection_isEmpty ed \<longrightarrow>
      captureSelection host st =
        st\<lparr>effects := effects st @
          [ShowErrorMessage ''No code selected. Select some code first.'']\<rparr>)"
  by (simp add: captureSelection_def captureFile_def emit_def)

theorem capture_without_editor_or_selection_witness:
  "captureSelection (exampleHost\<lparr>activeTextEditor := None\<rparr>) initialState =
     initialState\<lparr>effects := [ShowErrorMessage ''No active editor'']\<rparr> \<and>
   captureFile (exampleHost\<lparr>activeTextEditor := None\<rparr>) initialState =
     initialState\<lparr>effects := [ShowErrorMessage ''No active editor'']\<rparr> \<and>
   activeTextEditor exampleHost = Some exampleEditor \<and> selection_isEmpty exampleEditor \<and>
   captureSelection exampleHost initialState =
     initialState\<lparr>effects := [ShowErrorMessage ''No code selected. Select some code first.'']\<rparr>"
  using capture_without_editor_or_selection
      [of "exampleHost\<lparr>activeTextEditor := None\<rparr>" initialState exampleEditor]
    capture_without_editor_or_selection [of exampleHost initialState exampleEditor]
  by (simp add: exampleHost_def exampleEditor_def initialState_def)

subsection \<open>The message handler\<close>

text \<open>
  C10. A \<^verbatim>\<open>save\<close> message whose data is missing or the empty string, and a message
  whose command is none of \<^verbatim>\<open>save\<close>, \<^verbatim>\<open>copy\<close> and \<^verbatim>\<open>error\<close> (a missing command
  included), leave the state as it was: nothing is added to the effect log (no dialog,
  no write, no notification), and the panel is untouched.
\<close>

theorem ignored_messages:
  assumes "(msg_command m = Some ''save'' \<and> (msg_data m = None \<or> msg_data m = Some []))
         \<or> msg_command m \<notin> {Some ''save'', Some ''copy'', Some ''error''}"
  shows "onDidReceiveMessage host st m = st"
  using assms by (auto simp: onDidReceiveMessage_def truthy_def)

theorem ignored_messages_witness:
  "onDidReceiveMessage exampleHost initialState
     \<lparr>msg_command = Some ''save'', msg_data = None, msg_fileName = Some ''foo-codesnap'',
      msg_text = None\<rparr> = initialState \<and>
   onDidReceiveMessage exampleHost initialState
     \<lparr>msg_command = Some ''save'', msg_data = Some [], msg_fileName = None,
      msg_text = None\<rparr> = initialState \<and>
   onDidReceiveMessage exampleHost initialState
     \<lparr>msg_command = Some ''ping'', msg_data = Some ''x'', msg_fileName = None,
      msg_text = Some ''y''\<rparr> = initialState"
  using ignored_messages [of "\<lparr>msg_command = Some ''save'', msg_data = None,
        msg_fileName = Some ''foo-codesnap'', msg_text = None\<rparr>" exampleHost initialState]
    ignored_messages [of "\<lparr>msg_command = Some ''save'', msg_data = Some [],
        msg_fileName = None, msg_text = None\<rparr>" exampleHost initialState]
    ignored_messages [of "\<lparr>msg_command = Some ''ping'', msg_data = Some ''x'',
        msg_fileName = None, msg_text = Some ''y''\<rparr>" exampleHost initialState]
  by simp

lemma Buffer_AAAA: "Buffer_from_base64 ''AAAA'' = [0, 0, 0]"
  by (simp add: Buffer_from_base64_def unbase64_def base64Alphabet_def)

lemma strip_AAAA: "stripDataUrlPrefix ''data:image/png;base64,AAAA'' = ''AAAA''"
  by (simp add: stripDataUrlPrefix_def dataUrlPrefix_def)

text \<open>
  C6. On the message \<^verbatim>\<open>{command: "save", data: "data:image/png;base64,AAAA",
  fileName: "foo-codesnap"}\<close> the handler opens the save dialog with the default file
  name \<^verbatim>\<open>foo-codesnap.png\<close> (in the default directory); when the user confirms a
  path, the data without its prefix, \<^verbatim>\<open>AAAA\<close>, is decoded to the three bytes 0, 0, 0
  and exactly these are written to that path, the confirmation message following a
  successful write. Nothing else of the state changes.
\<close>

theorem save_message_written:
  assumes "showSaveDialog host (defaultDir host) ''foo-codesnap.png'' = Some uri"
  shows "stripDataUrlPrefix ''data:image/png;base64,AAAA'' = ''AAAA'' \<and>
         Buffer_from_base64 ''AAAA'' = [0, 0, 0] \<and>
         onDidReceiveMessage host st saveMessage =
           st\<lparr>effects := effects st @
              [ShowSaveDialog (defaultDir host) ''foo-codesnap.png'', WriteFile uri [0, 0, 0]] @
              (if fs_writeFile host uri [0, 0, 0]
               then [ShowInformationMessage (''Screenshot saved to '' @ uri)] else [])\<rparr>"
  using assms
  by (simp add: onDidReceiveMessage_def saveScreenshot_def saveMessage_def truthy_def
      templateString_def emit_def Buffer_AAAA strip_AAAA Let_def)

lemma exampleHost_dialog:
  "showSaveDialog exampleHost (defaultDir exampleHost) ''foo-codesnap.png'' =
     Some ''/work/foo-codesnap.png''"
  by (simp add: exampleHost_def defaultDir_def truthy_def templateString_def)

theorem save_message_written_witness:
  "showSaveDialog exampleHost (defaultDir exampleHost) ''foo-codesnap.png'' =
     Some ''/work/foo-codesnap.png'' \<and>
   effects (onDidReceiveMessage exampleHost initialState saveMessage) =
     [ShowSaveDialog ''/work'' ''foo-codesnap.png'',
      WriteFile ''/work/foo-codesnap.png'' [0, 0, 0],
      ShowInformationMessage ''Screenshot saved to /work/foo-codesnap.png'']"
  using save_message_written [OF exampleHost_dialog, of initialState] exampleHost_dialog
  by (simp add: exampleHost_def defaultDir_def truthy_def templateString_def initialState_def)


subsection \<open>The nonce\<close>

lemma nonceLoop_append:
  "nonceLoop rnd k n acc = acc @ concat (map (\<lambda>j. charAt possible (rnd (k + j))) [0..<n])"
proof (induction n arbitrary: k acc)
  case 0
  show ?case by simp
next
  case (Suc n)
  have "map (\<lambda>j. charAt possible (rnd (k + j))) [0..<Suc n] =
        charAt possible (rnd k) # map (\<lambda>j. charAt possible (rnd (Suc k + j))) [0..<n]"
    by (simp add: upt_conv_Cons map_Suc_upt [symmetric] del: upt_Suc)
  with Suc show ?case by simp
qed

lemma set_charAt: "set (charAt s i) \<subseteq> set s"
  by (auto simp: charAt_def)

lemma set_nonceLoop: "set (nonceLoop rnd k n []) \<subseteq> set possible"
  using set_charAt by (fastforce simp: nonceLoop_append)

lemma possible_no_delimiter:
  "CHR 0x27 \<notin> set possible" "CHR 0x22 \<notin> set possible" "CHR ''>'' \<notin> set possible"
  by (simp_all add: possible_def)

lemma nonceLoop_no_delimiter:
  "CHR 0x27 \<notin> set (nonceLoop rnd k n [])" "CHR ''>'' \<notin> set (nonceLoop rnd k n [])"
  using set_nonceLoop [of rnd k n] possible_no_delimiter by blast+

lemma takeWhile_delim: "c \<notin> set xs \<Longrightarrow> takeWhile (\<lambda>x. x \<noteq> c) (xs @ c # r) = xs"
  by (induction xs) auto

lemma append_delim_eq:
  assumes "xs @ c # r = ys @ c # r'" and "c \<notin> set xs" and "c \<notin> set ys"
  shows "xs = ys"
proof -
  have "takeWhile (\<lambda>x. x \<noteq> c) (xs @ c # r) = xs"
    using assms(2) by (rule takeWhile_delim)
  moreover have "takeWhile (\<lambda>x. x \<noteq> c) (ys @ c # r') = ys"
    using assms(3) by (rule takeWhile_delim)
  ultimately show ?thesis using assms(1) by simp
qed

text \<open>Two documents with different nonces differ: the first nonce ends at a quote.\<close>

lemma buildWebviewHtml_nonce_inj:
  assumes "buildWebviewHtml p = buildWebviewHtml q"
    and "CHR 0x27 \<notin> set (nonce p)" and "CHR 0x27 \<notin> set (nonce q)"
  shows "nonce p = nonce q"
proof -
  from assms(1) obtain r r' where "nonce p @ CHR 0x27 # r = nonce q @ CHR 0x27 # r'"
    by (simp add: buildWebviewHtml_def cspMeta_def csp_1_def)
  then show ?thesis using assms(2,3) by (rule append_delim_eq)
qed







subsection \<open>showCodeSnapPanel\<close>

lemma getHighlightedHtml_currentPanel:
  "currentPanel (snd (getHighlightedHtml sh st src lang th)) = currentPanel st"
  by (simp add: getHighlightedHtml_def highlightingFailed_def emit_def Let_def
      split: option.splits sum.splits)

lemma getHighlightedHtml_randomCalls:
  "randomCalls (snd (getHighlightedHtml sh st src lang th)) = randomCalls st"
  by (simp add: getHighlightedHtml_def highlightingFailed_def emit_def Let_def
      split: option.splits sum.splits)

lemma getHighlightedHtml_effects:
  "effects (snd (getHighlightedHtml sh st src lang th)) = effects st \<or>
   (\<exists>a b. effects (snd (getHighlightedHtml sh st src lang th)) = effects st @ [ConsoleError a b])"
  by (simp add: getHighlightedHtml_def highlightingFailed_def emit_def Let_def
      split: option.splits sum.splits)

lemma getHighlightedHtml_count:
  "count_list (effects (snd (getHighlightedHtml sh st src lang th))) CreateWebviewPanel =
     count_list (effects st) CreateWebviewPanel"
  "count_list (effects (snd (getHighlightedHtml sh st src lang th))) Reveal =
     count_list (effects st) Reveal"
  using getHighlightedHtml_effects [of sh st src lang th] by auto

lemma showCodeSnapPanel_currentPanel:
  "currentPanel (showCodeSnapPanel host st src lang name line) =
     Some \<lparr>webview_html = buildWebviewHtml (webviewParams host
       (fst (getHighlightedHtml (shikiModule host) st src lang (cfg_theme (getConfiguration host))))
       src name line (nonceLoop (mathRandomIndex host) (randomCalls st) 32 []))\<rparr>"
  by (simp add: showCodeSnapPanel_def getNonce_def emit_def Let_def split_beta
      getHighlightedHtml_randomCalls split: option.splits)

lemma showCodeSnapPanel_randomCalls:
  "randomCalls (showCodeSnapPanel host st src lang name line) = randomCalls st + 32"
  by (simp add: showCodeSnapPanel_def getNonce_def emit_def Let_def split_beta
      getHighlightedHtml_randomCalls split: option.splits)

lemma showCodeSnapPanel_effects:
  "effects (showCodeSnapPanel host st src lang name line) =
     effects (snd (getHighlightedHtml (shikiModule host) st src lang
                     (cfg_theme (getConfiguration host)))) @
     (if currentPanel st = None then [CreateWebviewPanel, OnDidDispose, OnDidReceiveMessage]
      else [Reveal])"
  by (simp add: showCodeSnapPanel_def getNonce_def emit_def Let_def split_beta
      getHighlightedHtml_currentPanel split: option.splits)

lemma nonce_webviewParams: "nonce (webviewParams host h src name line token) = token"
  by (simp add: webviewParams_def Let_def)

lemma webviewParams_documents_differ:
  assumes "n1 \<noteq> n2" and "CHR 0x27 \<notin> set n1" and "CHR 0x27 \<notin> set n2"
  shows "buildWebviewHtml (webviewParams host h1 src name line n1) \<noteq>
         buildWebviewHtml (webviewParams host h2 src name line n2)"
proof
  assume "buildWebviewHtml (webviewParams host h1 src name line n1) =
          buildWebviewHtml (webviewParams host h2 src name line n2)"
  then have "nonce (webviewParams host h1 src name line n1) =
             nonce (webviewParams host h2 src name line n2)"
    using assms(2,3) by (intro buildWebviewHtml_nonce_inj) (simp_all add: nonce_webviewParams)
  with assms(1) show False by (simp add: nonce_webviewParams)
qed

lemma example_nonces:
  "nonceLoop (\<lambda>k. k div 32) 0 32 [] = replicate 32 CHR ''A''"
  "nonceLoop (\<lambda>k. k div 32) 32 32 [] = replicate 32 CHR ''B''"
  by code_simp+

lemma panelHtml_showCodeSnapPanel:
  "panelHtml (showCodeSnapPanel host st src lang name line) =
     Some (buildWebviewHtml (webviewParams host
       (fst (getHighlightedHtml (shikiModule host) st src lang (cfg_theme (getConfiguration host))))
       src name line (nonceLoop (mathRandomIndex host) (randomCalls st) 32 [])))"
  by (simp add: panelHtml_def showCodeSnapPanel_currentPanel)

lemma captureFile_editor:
  "activeTextEditor host = Some ed \<Longrightarrow>
   captureFile host st =
     showCodeSnapPanel host st (document_text ed) (document_languageId ed)
       (path_basename host (document_fileName ed)) 1"
  by (simp add: captureFile_def)

lemma showCodeSnapPanel_twice_effects:
  assumes "st1 = showCodeSnapPanel host st src lang name line"
    and "st2 = showCodeSnapPanel host st1 src lang name line"
  shows "currentPanel st1 \<noteq> None"
    and "count_list (effects st2) CreateWebviewPanel = count_list (effects st1) CreateWebviewPanel"
    and "count_list (effects st2) Reveal = Suc (count_list (effects st1) Reveal)"
proof -
  show open1: "currentPanel st1 \<noteq> None"
    by (simp add: assms(1) showCodeSnapPanel_currentPanel)
  show "count_list (effects st2) CreateWebviewPanel = count_list (effects st1) CreateWebviewPanel"
    using open1 by (simp add: assms(2) showCodeSnapPanel_effects getHighlightedHtml_count)
  show "count_list (effects st2) Reveal = Suc (count_list (effects st1) Reveal)"
    using open1 by (simp add: assms(2) showCodeSnapPanel_effects getHighlightedHtml_count)
qed

subsection \<open>Capturing the same file twice\<close>

text \<open>
  C5, as the code has it. Two invocations of Capture Entire File in succession, on the
  same document and configuration: after the first a panel is open; the second creates
  no panel and reveals the open one once. Each invocation composes the document from
  the same text, file name, line number and settings, from what the highlighter returns
  to it, and from a nonce of its own, made of the next thirty-two random draws. The two
  documents are equal when the two highlighter results and the two nonces are equal, and
  differ whenever the nonces differ.
\<close>

theorem capture_file_twice:
  assumes "activeTextEditor host = Some ed"
  shows
    "let st1 = captureFile host st;
         st2 = captureFile host st1;
         th = cfg_theme (getConfiguration host);
         h1 = fst (getHighlightedHtml (shikiModule host) st
                     (document_text ed) (document_languageId ed) th);
         h2 = fst (getHighlightedHtml (shikiModule host) st1
                     (document_text ed) (document_languageId ed) th);
         n1 = nonceLoop (mathRandomIndex host) (randomCalls st) 32 [];
         n2 = nonceLoop (mathRandomIndex host) (randomCalls st + 32) 32 [];
         doc = (\<lambda>h n. buildWebviewHtml (webviewParams host h (document_text ed)
                          (path_basename host (document_fileName ed)) 1 n))
     in currentPanel st1 \<noteq> None \<and>
        count_list (effects st2) CreateWebviewPanel =
          count_list (effects st1) CreateWebviewPanel \<and>
        count_list (effects st2) Reveal = Suc (count_list (effects st1) Reveal) \<and>
        panelHtml st1 = Some (doc h1 n1) \<and>
        panelHtml st2 = Some (doc h2 n2) \<and>
        (h1 = h2 \<and> n1 = n2 \<longrightarrow> panelHtml st2 = panelHtml st1) \<and>
        (n1 \<noteq> n2 \<longrightarrow> panelHtml st2 \<noteq> panelHtml st1)"
proof -
  define src where "src = document_text ed"
  define lang where "lang = document_languageId ed"
  define name where "name = path_basename host (document_fileName ed)"
  define st1 where "st1 = showCodeSnapPanel host st src lang name 1"
  define st2 where "st2 = showCodeSnapPanel host st1 src lang name 1"
  define th where "th = cfg_theme (getConfiguration host)"
  define h1 where "h1 = fst (getHighlightedHtml (shikiModule host) st src lang th)"
  define h2 where "h2 = fst (getHighlightedHtml (shikiModule host) st1 src lang th)"
  define n1 where "n1 = nonceLoop (mathRandomIndex host) (randomCalls st) 32 []"
  define n2 where "n2 = nonceLoop (mathRandomIndex host) (randomCalls st + 32) 32 []"
  have c1: "captureFile host st = st1"
    using assms by (simp add: captureFile_editor st1_def src_def lang_def name_def)
  have c2: "captureFile host st1 = st2"
    using assms by (simp add: captureFile_editor st2_def src_def lang_def name_def)
  have calls: "randomCalls st1 = randomCalls st + 32"
    by (simp add: st1_def showCodeSnapPanel_randomCalls)
  have d1: "panelHtml st1 = Some (buildWebviewHtml (webviewParams host h1 src name 1 n1))"
    by (simp add: st1_def h1_def n1_def th_def panelHtml_showCodeSnapPanel)
  have d2: "panelHtml st2 = Some (buildWebviewHtml (webviewParams host h2 src name 1 n2))"
    by (simp add: st2_def h2_def n2_def th_def panelHtml_showCodeSnapPanel calls)
  have quote: "CHR 0x27 \<notin> set n1" "CHR 0x27 \<notin> set n2"
    by (simp_all add: n1_def n2_def nonceLoop_no_delimiter)
  have differ: "n1 \<noteq> n2 \<Longrightarrow> panelHtml st2 \<noteq> panelHtml st1"
    using webviewParams_documents_differ [of n1 n2 host h1 src name 1 h2] quote
    by (simp add: d1 d2)
  have same: "h1 = h2 \<Longrightarrow> n1 = n2 \<Longrightarrow> panelHtml st2 = panelHtml st1"
    by (simp add: d1 d2)
  note fx = showCodeSnapPanel_twice_effects [OF st1_def st2_def]
  show ?thesis
    unfolding Let_def c1 c2
    using fx d1 d2 differ same
    by (simp add: src_def lang_def name_def th_def h1_def h2_def n1_def n2_def c1)
qed

lemma exampleHost_captureFile:
  "captureFile exampleHost st =
     showCodeSnapPanel exampleHost st ''const x = 1;'' ''typescript'' ''foo.ts'' 1"
  by (simp add: captureFile_def exampleHost_def exampleEditor_def)

lemma exampleHost_captureFile_html:
  "panelHtml (captureFile exampleHost st) =
     Some (buildWebviewHtml (webviewParams exampleHost
       (fst (getHighlightedHtml exampleShiki st ''const x = 1;'' ''typescript'' ''dark''))
       ''const x = 1;'' ''foo.ts'' 1 (nonceLoop (\<lambda>k. k div 32) (randomCalls st) 32 [])))"
  by (simp only: exampleHost_captureFile panelHtml_showCodeSnapPanel)
     (simp add: exampleHost_def exampleConfiguration_def)

text \<open>
  On the example host the first document carries the nonce of thirty-two A's, the
  second the nonce of thirty-two B's: the two documents differ.
\<close>

theorem capture_file_twice_markup_differs:
  "panelHtml (captureFile exampleHost (captureFile exampleHost initialState)) \<noteq>
   panelHtml (captureFile exampleHost initialState)"
proof -
  define st1 where "st1 = captureFile exampleHost initialState"
  define h1 where "h1 = fst (getHighlightedHtml exampleShiki initialState
      ''const x = 1;'' ''typescript'' ''dark'')"
  define h2 where "h2 = fst (getHighlightedHtml exampleShiki st1
      ''const x = 1;'' ''typescript'' ''dark'')"
  have r0: "randomCalls (initialState :: string list state) = 0"
    by (simp add: initialState_def)
  have r1: "randomCalls st1 = 32"
    by (simp add: st1_def exampleHost_captureFile showCodeSnapPanel_randomCalls r0)
  have d1: "panelHtml st1 = Some (buildWebviewHtml (webviewParams exampleHost h1
      ''const x = 1;'' ''foo.ts'' 1 (replicate 32 CHR ''A'')))"
    unfolding st1_def h1_def by (simp only: exampleHost_captureFile_html r0 example_nonces)
  have d2: "panelHtml (captureFile exampleHost st1) = Some (buildWebviewHtml
      (webviewParams exampleHost h2 ''const x = 1;'' ''foo.ts'' 1 (replicate 32 CHR ''B'')))"
    unfolding h2_def by (simp only: exampleHost_captureFile_html r1 example_nonces)
  have "buildWebviewHtml (webviewParams exampleHost h2
          ''const x = 1;'' ''foo.ts'' 1 (replicate 32 CHR ''B'')) \<noteq>
        buildWebviewHtml (webviewParams exampleHost h1
          ''const x = 1;'' ''foo.ts'' 1 (replicate 32 CHR ''A''))"
    by (rule webviewParams_documents_differ) (simp_all add: replicate_eq_replicate)
  then have "panelHtml (captureFile exampleHost st1) \<noteq> panelHtml st1"
    by (simp only: d1 d2 option.inject not_False_eq_True)
  then show ?thesis unfolding st1_def .
qed

theorem capture_file_twice_witness:
  "activeTextEditor exampleHost = Some exampleEditor \<and>
   currentPanel (captureFile exampleHost initialState) \<noteq> None \<and>
   count_list (effects (captureFile exampleHost (captureFile exampleHost initialState)))
       CreateWebviewPanel =
     count_list (effects (captureFile exampleHost initialState)) CreateWebviewPanel \<and>
   count_list (effects (captureFile exampleHost (captureFile exampleHost initialState))) Reveal =
     Suc (count_list (effects (captureFile exampleHost initialState)) Reveal) \<and>
   nonceLoop (mathRandomIndex exampleHost) (randomCalls initialState) 32 [] \<noteq>
     nonceLoop (mathRandomIndex exampleHost) (randomCalls initialState + 32) 32 [] \<and>
   panelHtml (captureFile exampleHost (captureFile exampleHost initialState)) \<noteq>
     panelHtml (captureFile exampleHost initialState)"
proof -
  have ed: "activeTextEditor exampleHost = Some exampleEditor"
    by (simp add: exampleHost_def)
  have rnd: "mathRandomIndex exampleHost = (\<lambda>k. k div 32)"
    by (simp add: exampleHost_def)
  have ne: "nonceLoop (mathRandomIndex exampleHost) (randomCalls initialState) 32 [] \<noteq>
     nonceLoop (mathRandomIndex exampleHost) (randomCalls initialState + 32) 32 []"
    by (simp add: rnd initialState_def example_nonces replicate_eq_replicate)
  note t = capture_file_twice [OF ed, of initialState, unfolded Let_def]
  note differ = t [THEN conjunct2, THEN conjunct2, THEN conjunct2, THEN conjunct2,
      THEN conjunct2, THEN conjunct2, THEN mp, OF ne]
  show ?thesis
    using ed t [THEN conjunct1] t [THEN conjunct2, THEN conjunct1]
      t [THEN conjunct2, THEN conjunct2, THEN conjunct1] ne differ
    by (intro conjI)
qed

subsection \<open>The nonce in the composed document\<close>



end
